theory Spec2Isabelle
  imports Main "HOL-Library.Word"
begin

section \<open>JetStream error values (jsv2/jetstream/errors.go)\<close>

text \<open>
  The file declares two error structures, \<open>APIError\<close> (what the server reports) and
  \<open>jsError\<close> (a client message with an optional embedded \<open>APIError\<close>), their methods,
  nine \<open>ErrorCode\<close> constants and a block of package-level error variables.

  Go pointers are modelled as options (\<open>None\<close> is \<open>nil\<close>), a nil-pointer dereference as the
  value \<open>Inl NilDereference\<close>, and a value of the interface type \<open>error\<close> as a datatype with
  one constructor per dynamic type that occurs here.
\<close>

subsection \<open>Types\<close>

datatype panic = NilDereference

type_synonym 'a ptr = "'a option"

text \<open>\<open>ErrorCode\<close> is \<open>uint16\<close>; \<open>Code\<close> is a Go \<open>int\<close> that is only stored, never computed with.\<close>

type_synonym ErrorCode = "16 word"

record APIError =
  Code :: int
  ErrorCode :: ErrorCode
  Description :: string

record jsError =
  apiErr :: "APIError ptr"
  message :: string

text \<open>
  A value of the interface type \<open>error\<close>: the nil interface, a \<open>*APIError\<close>, a \<open>*jsError\<close>
  (both pointers may be nil inside a non-nil interface), the result of \<open>errors.New\<close>, or an
  error of another layer that carries a text and wraps one error, as \<open>fmt.Errorf\<close> with
  \<open>%w\<close> builds it (a single \<open>Unwrap() error\<close> method, no \<open>As\<close> or \<open>Is\<close> method).
\<close>

datatype error =
    ErrNil
  | ErrAPI "APIError ptr"
  | ErrJS "jsError ptr"
  | ErrString string
  | ErrWrap string error

subsection \<open>Formatting\<close>

text \<open>The verb \<open>%d\<close> on an unsigned integer: its decimal digits, without sign or padding.\<close>

definition digit_char :: "nat \<Rightarrow> char" where
  "digit_char d = ''0123456789'' ! d"

fun fmt_d :: "nat \<Rightarrow> string" where
  "fmt_d n = (if n < 10 then [digit_char n] else fmt_d (n div 10) @ [digit_char (n mod 10)])"

declare fmt_d.simps [simp del]

subsection \<open>Methods of \<open>*APIError\<close>\<close>

text \<open>\<open>fmt.Sprintf("nats: API error %d: %s", e.ErrorCode, e.Description)\<close>\<close>

fun APIError_Error :: "APIError ptr \<Rightarrow> panic + string" where
  "APIError_Error None = Inl NilDereference"
| "APIError_Error (Some e) =
     Inr (''nats: API error '' @ fmt_d (unat (ErrorCode e)) @ '': '' @ Description e)"

definition APIError_APIError :: "APIError ptr \<Rightarrow> APIError ptr" where
  "APIError_APIError e = e"

subsection \<open>Methods of \<open>*jsError\<close>\<close>

fun jsError_APIError :: "jsError ptr \<Rightarrow> panic + APIError ptr" where
  "jsError_APIError None = Inl NilDereference"
| "jsError_APIError (Some err) = Inr (apiErr err)"

fun jsError_Error :: "jsError ptr \<Rightarrow> panic + string" where
  "jsError_Error None = Inl NilDereference"
| "jsError_Error (Some err) =
     (case apiErr err of
        None \<Rightarrow> Inr (''nats: '' @ message err)
      | Some a \<Rightarrow>
          if Description a \<noteq> '''' then APIError_Error (apiErr err)
          else Inr (''nats: '' @ message err))"

text \<open>The nil interface is returned for a nil \<open>apiErr\<close>, not a nil \<open>*APIError\<close> in an interface.\<close>

fun jsError_Unwrap :: "jsError ptr \<Rightarrow> panic + error" where
  "jsError_Unwrap None = Inl NilDereference"
| "jsError_Unwrap (Some err) =
     (if apiErr err = None then Inr ErrNil else Inr (ErrAPI (apiErr err)))"

subsection \<open>The interface methods, by dynamic type\<close>

text \<open>\<open>Error()\<close>, which every error has; calling it on the nil interface panics.\<close>

fun error_Error :: "error \<Rightarrow> panic + string" where
  "error_Error ErrNil = Inl NilDereference"
| "error_Error (ErrAPI p) = APIError_Error p"
| "error_Error (ErrJS p) = jsError_Error p"
| "error_Error (ErrString s) = Inr s"
| "error_Error (ErrWrap m e) = Inr m"

text \<open>
  \<open>APIError()\<close> of the interface \<open>JetStreamError\<close>: \<open>None\<close> when the dynamic type has no such
  method, that is, when the value does not implement \<open>JetStreamError\<close>.
\<close>

fun error_APIError :: "error \<Rightarrow> (panic + APIError ptr) option" where
  "error_APIError (ErrAPI p) = Some (Inr (APIError_APIError p))"
| "error_APIError (ErrJS p) = Some (jsError_APIError p)"
| "error_APIError ErrNil = None"
| "error_APIError (ErrString s) = None"
| "error_APIError (ErrWrap m e) = None"

definition implements_JetStreamError :: "error \<Rightarrow> bool" where
  "implements_JetStreamError e = (error_APIError e \<noteq> None)"

fun is_jsError :: "error \<Rightarrow> bool" where
  "is_jsError (ErrJS p) = True"
| "is_jsError ErrNil = False"
| "is_jsError (ErrAPI p) = False"
| "is_jsError (ErrString s) = False"
| "is_jsError (ErrWrap m e) = False"

subsection \<open>The library function \<open>errors.As\<close> at target type \<open>*APIError\<close>\<close>

text \<open>
  \<open>errors.As(err, &aerr)\<close> returns false for the nil interface; otherwise it loops: when the
  dynamic type of \<open>err\<close> is \<open>*APIError\<close> it stores the pointer (nil or not) and returns
  true; otherwise it calls \<open>Unwrap()\<close> where the type has one and goes on with the
  result, returning false when that is the nil interface or when there is no \<open>Unwrap\<close>.
  The result is the pair of the returned flag and the content of \<open>aerr\<close>, which starts
  nil.
\<close>

fun unwrap_depth :: "error \<Rightarrow> nat" where
  "unwrap_depth ErrNil = 0"
| "unwrap_depth (ErrAPI p) = 0"
| "unwrap_depth (ErrJS p) = 1"
| "unwrap_depth (ErrString s) = 0"
| "unwrap_depth (ErrWrap m e) = Suc (unwrap_depth e)"

function errors_As :: "error \<Rightarrow> panic + bool \<times> APIError ptr" where
  "errors_As ErrNil = Inr (False, None)"
| "errors_As (ErrAPI p) = Inr (True, p)"
| "errors_As (ErrJS j) =
     (case jsError_Unwrap j of
        Inl p \<Rightarrow> Inl p
      | Inr e \<Rightarrow> if e = ErrNil then Inr (False, None) else errors_As e)"
| "errors_As (ErrString s) = Inr (False, None)"
| "errors_As (ErrWrap m e) = (if e = ErrNil then Inr (False, None) else errors_As e)"
  by pat_completeness auto
termination
proof (relation "measure unwrap_depth")
  show "wf (measure unwrap_depth)" by simp
next
  fix j e
  assume "jsError_Unwrap j = Inr e" and "e \<noteq> ErrNil"
  then show "(e, ErrJS j) \<in> measure unwrap_depth"
    by (cases j) (auto split: if_splits)
next
  fix m :: string and e
  show "(e, ErrWrap m e) \<in> measure unwrap_depth" by simp
qed

subsection \<open>\<open>(*APIError).Is\<close>\<close>

fun APIError_Is :: "APIError ptr \<Rightarrow> error \<Rightarrow> panic + bool" where
  "APIError_Is None err = Inr False"
| "APIError_Is (Some e) err =
     (case errors_As err of
        Inl p \<Rightarrow> Inl p
      | Inr (ok, aerr) \<Rightarrow>
          if \<not> ok then Inr ok
          else (case aerr of
                  None \<Rightarrow> Inl NilDereference
                | Some a \<Rightarrow> Inr (ErrorCode e = ErrorCode a)))"

subsection \<open>The \<open>ErrorCode\<close> constants\<close>

definition JSErrCodeJetStreamNotEnabledForAccount :: ErrorCode where
  "JSErrCodeJetStreamNotEnabledForAccount = 10039"

definition JSErrCodeJetStreamNotEnabled :: ErrorCode where
  "JSErrCodeJetStreamNotEnabled = 10076"

definition JSErrCodeStreamNotFound :: ErrorCode where
  "JSErrCodeStreamNotFound = 10059"

definition JSErrCodeStreamNameInUse :: ErrorCode where
  "JSErrCodeStreamNameInUse = 10058"

definition JSErrCodeConsumerNotFound :: ErrorCode where
  "JSErrCodeConsumerNotFound = 10014"

definition JSErrCodeConsumerNameExists :: ErrorCode where
  "JSErrCodeConsumerNameExists = 10013"

definition JSErrCodeConsumerAlreadyExists :: ErrorCode where
  "JSErrCodeConsumerAlreadyExists = 10105"

definition JSErrCodeMessageNotFound :: ErrorCode where
  "JSErrCodeMessageNotFound = 10037"

definition JSErrCodeBadRequest :: ErrorCode where
  "JSErrCodeBadRequest = 10003"

text \<open>The \<open>const\<close> block, in source order, under the Go identifiers.\<close>

definition ErrorCode_constants :: "(string \<times> ErrorCode) list" where
  "ErrorCode_constants =
    [(''JSErrCodeJetStreamNotEnabledForAccount'', JSErrCodeJetStreamNotEnabledForAccount),
     (''JSErrCodeJetStreamNotEnabled'', JSErrCodeJetStreamNotEnabled),
     (''JSErrCodeStreamNotFound'', JSErrCodeStreamNotFound),
     (''JSErrCodeStreamNameInUse'', JSErrCodeStreamNameInUse),
     (''JSErrCodeConsumerNotFound'', JSErrCodeConsumerNotFound),
     (''JSErrCodeConsumerNameExists'', JSErrCodeConsumerNameExists),
     (''JSErrCodeConsumerAlreadyExists'', JSErrCodeConsumerAlreadyExists),
     (''JSErrCodeMessageNotFound'', JSErrCodeMessageNotFound),
     (''JSErrCodeBadRequest'', JSErrCodeBadRequest)]"

subsection \<open>The error variables\<close>

text \<open>
  A composite literal that names only some fields leaves the others zero: \<open>message\<close> is
  the empty string in the API errors and \<open>apiErr\<close> is nil in the client errors.
\<close>

definition api_error :: "ErrorCode \<Rightarrow> string \<Rightarrow> int \<Rightarrow> error" where
  "api_error ec d c =
     ErrJS (Some \<lparr>apiErr = Some \<lparr>Code = c, ErrorCode = ec, Description = d\<rparr>, message = ''''\<rparr>)"

definition client_error :: "string \<Rightarrow> error" where
  "client_error m = ErrJS (Some \<lparr>apiErr = None, message = m\<rparr>)"

definition ErrJetStreamNotEnabled :: error where
  "ErrJetStreamNotEnabled = api_error JSErrCodeJetStreamNotEnabled ''jetstream not enabled'' 503"

definition ErrJetStreamNotEnabledForAccount :: error where
  "ErrJetStreamNotEnabledForAccount =
     api_error JSErrCodeJetStreamNotEnabledForAccount ''jetstream not enabled for account'' 503"

definition ErrStreamNotFound :: error where
  "ErrStreamNotFound = api_error JSErrCodeStreamNotFound ''stream not found'' 404"

definition ErrStreamNameAlreadyInUse :: error where
  "ErrStreamNameAlreadyInUse =
     api_error JSErrCodeStreamNameInUse ''stream name already in use'' 400"

definition ErrConsumerNotFound :: error where
  "ErrConsumerNotFound = api_error JSErrCodeConsumerNotFound ''consumer not found'' 404"

definition ErrMsgNotFound :: error where
  "ErrMsgNotFound = api_error JSErrCodeMessageNotFound ''message not found'' 404"

definition ErrBadRequest :: error where
  "ErrBadRequest = api_error JSErrCodeBadRequest ''bad request'' 400"

definition ErrConsumerNameAlreadyInUse :: error where
  "ErrConsumerNameAlreadyInUse = client_error ''consumer name already in use''"

definition ErrInvalidJSAck :: error where
  "ErrInvalidJSAck = client_error ''invalid jetstream publish response''"

definition ErrStreamNameRequired :: error where
  "ErrStreamNameRequired = client_error ''stream name is required''"

definition ErrConsumerNameRequired :: error where
  "ErrConsumerNameRequired = client_error ''consumer name is required''"

definition ErrMsgAlreadyAckd :: error where
  "ErrMsgAlreadyAckd = client_error ''message was already acknowledged''"

definition ErrNoStreamResponse :: error where
  "ErrNoStreamResponse = client_error ''no response from stream''"

definition ErrNotJSMessage :: error where
  "ErrNotJSMessage = client_error ''not a jetstream message''"

definition ErrInvalidStreamName :: error where
  "ErrInvalidStreamName = client_error ''invalid stream name''"

definition ErrInvalidConsumerName :: error where
  "ErrInvalidConsumerName = client_error ''invalid consumer name''"

definition ErrNoMessages :: error where
  "ErrNoMessages = client_error ''no messages''"

definition ErrHandlerRequired :: error where
  "ErrHandlerRequired = client_error ''handler cannot be empty''"

text \<open>\<open>errors.New("nats: end of data reached")\<close>\<close>

definition ErrEndOfData :: error where
  "ErrEndOfData = ErrString ''nats: end of data reached''"

definition ErrNoHeartbeat :: error where
  "ErrNoHeartbeat = client_error ''no heartbeat received, canceling subscription''"

definition ErrConsumerHasActiveSubscription :: error where
  "ErrConsumerHasActiveSubscription = client_error ''consumer has active subscription''"

definition ErrMsgNotBound :: error where
  "ErrMsgNotBound = client_error ''message is not bound to subscription/connection''"

definition ErrMsgNoReply :: error where
  "ErrMsgNoReply = client_error ''message does not have a reply''"

definition ErrMsgDeleteUnsuccessful :: error where
  "ErrMsgDeleteUnsuccessful = client_error ''message deletion unsuccessful''"

definition ErrAsyncPublishReplySubjectSet :: error where
  "ErrAsyncPublishReplySubjectSet = client_error ''reply subject should be empty''"

definition ErrTooManyStalledMsgs :: error where
  "ErrTooManyStalledMsgs =
     client_error ''stalled with too many outstanding async published messages''"

text \<open>
  The \<open>var\<close> block as two tables from Go identifier to value, in source order: the
  variables under the comment \<open>API errors\<close> and those under \<open>Client errors\<close>.
\<close>

definition API_errors :: "(string \<times> error) list" where
  "API_errors =
    [(''ErrJetStreamNotEnabled'', ErrJetStreamNotEnabled),
     (''ErrJetStreamNotEnabledForAccount'', ErrJetStreamNotEnabledForAccount),
     (''ErrStreamNotFound'', ErrStreamNotFound),
     (''ErrStreamNameAlreadyInUse'', ErrStreamNameAlreadyInUse),
     (''ErrConsumerNotFound'', ErrConsumerNotFound),
     (''ErrMsgNotFound'', ErrMsgNotFound),
     (''ErrBadRequest'', ErrBadRequest)]"

definition Client_errors :: "(string \<times> error) list" where
  "Client_errors =
    [(''ErrConsumerNameAlreadyInUse'', ErrConsumerNameAlreadyInUse),
     (''ErrInvalidJSAck'', ErrInvalidJSAck),
     (''ErrStreamNameRequired'', ErrStreamNameRequired),
     (''ErrConsumerNameRequired'', ErrConsumerNameRequired),
     (''ErrMsgAlreadyAckd'', ErrMsgAlreadyAckd),
     (''ErrNoStreamResponse'', ErrNoStreamResponse),
     (''ErrNotJSMessage'', ErrNotJSMessage),
     (''ErrInvalidStreamName'', ErrInvalidStreamName),
     (''ErrInvalidConsumerName'', ErrInvalidConsumerName),
     (''ErrNoMessages'', ErrNoMessages),
     (''ErrHandlerRequired'', ErrHandlerRequired),
     (''ErrEndOfData'', ErrEndOfData),
     (''ErrNoHeartbeat'', ErrNoHeartbeat),
     (''ErrConsumerHasActiveSubscription'', ErrConsumerHasActiveSubscription),
     (''ErrMsgNotBound'', ErrMsgNotBound),
     (''ErrMsgNoReply'', ErrMsgNoReply),
     (''ErrMsgDeleteUnsuccessful'', ErrMsgDeleteUnsuccessful),
     (''ErrAsyncPublishReplySubjectSet'', ErrAsyncPublishReplySubjectSet),
     (''ErrTooManyStalledMsgs'', ErrTooManyStalledMsgs)]"

text \<open>
  What a caller reads from a sentinel through \<open>APIError()\<close>: the embedded \<open>APIError\<close> of a
  value that implements \<open>JetStreamError\<close>, and its \<open>ErrorCode\<close>.
\<close>

definition sentinel_APIError :: "error \<Rightarrow> APIError ptr" where
  "sentinel_APIError e = (case error_APIError e of Some (Inr p) \<Rightarrow> p | _ \<Rightarrow> None)"

definition sentinel_code :: "error \<Rightarrow> ErrorCode option" where
  "sentinel_code e = map_option ErrorCode (sentinel_APIError e)"

section \<open>Properties\<close>

subsection \<open>Evaluation and shape lemmas\<close>

lemmas JSErrCode_defs =
  JSErrCodeJetStreamNotEnabledForAccount_def JSErrCodeJetStreamNotEnabled_def
  JSErrCodeStreamNotFound_def JSErrCodeStreamNameInUse_def JSErrCodeConsumerNotFound_def
  JSErrCodeConsumerNameExists_def JSErrCodeConsumerAlreadyExists_def
  JSErrCodeMessageNotFound_def JSErrCodeBadRequest_def

lemmas API_error_defs =
  ErrJetStreamNotEnabled_def ErrJetStreamNotEnabledForAccount_def ErrStreamNotFound_def
  ErrStreamNameAlreadyInUse_def ErrConsumerNotFound_def ErrMsgNotFound_def ErrBadRequest_def

lemmas Client_error_defs =
  ErrConsumerNameAlreadyInUse_def ErrInvalidJSAck_def ErrStreamNameRequired_def
  ErrConsumerNameRequired_def ErrMsgAlreadyAckd_def ErrNoStreamResponse_def
  ErrNotJSMessage_def ErrInvalidStreamName_def ErrInvalidConsumerName_def ErrNoMessages_def
  ErrHandlerRequired_def ErrEndOfData_def ErrNoHeartbeat_def
  ErrConsumerHasActiveSubscription_def ErrMsgNotBound_def ErrMsgNoReply_def
  ErrMsgDeleteUnsuccessful_def ErrAsyncPublishReplySubjectSet_def ErrTooManyStalledMsgs_def

lemma fmt_d_10059: "fmt_d 10059 = ''10059''"
  by (simp add: fmt_d.simps digit_char_def)

lemma API_errors_shape:
  "list_all (\<lambda>(n, e). \<exists>a. e = ErrJS (Some \<lparr>apiErr = Some a, message = ''''\<rparr>)) API_errors"
  by (simp add: API_errors_def API_error_defs api_error_def)

lemma API_errors_embedded:
  assumes "(n, s) \<in> set API_errors"
  obtains a where "s = ErrJS (Some \<lparr>apiErr = Some a, message = ''''\<rparr>)"
  using assms API_errors_shape by (auto simp: list_all_iff)

lemma Client_errors_shape:
  "list_all (\<lambda>(n, e). n \<noteq> ''ErrEndOfData'' \<longrightarrow>
       (\<exists>m. e = ErrJS (Some \<lparr>apiErr = None, message = m\<rparr>))) Client_errors"
  by (simp add: Client_errors_def Client_error_defs client_error_def)

lemma sentinel_APIError_api_error [simp]:
  "sentinel_APIError (api_error ec d c) = Some \<lparr>Code = c, ErrorCode = ec, Description = d\<rparr>"
  by (simp add: sentinel_APIError_def api_error_def APIError_APIError_def)

lemma sentinel_code_api_error [simp]: "sentinel_code (api_error ec d c) = Some ec"
  by (simp add: sentinel_code_def)

lemma sentinel_code_client_error [simp]: "sentinel_code (client_error m) = None"
  by (simp add: sentinel_code_def sentinel_APIError_def client_error_def)

lemma sentinel_code_ErrString [simp]: "sentinel_code (ErrString m) = None"
  by (simp add: sentinel_code_def sentinel_APIError_def)

lemma API_error_codes:
  "map (sentinel_code \<circ> snd) API_errors =
     [Some JSErrCodeJetStreamNotEnabled, Some JSErrCodeJetStreamNotEnabledForAccount,
      Some JSErrCodeStreamNotFound, Some JSErrCodeStreamNameInUse,
      Some JSErrCodeConsumerNotFound, Some JSErrCodeMessageNotFound, Some JSErrCodeBadRequest]"
  by (simp add: API_errors_def API_error_defs)

lemma Client_error_codes: "set (map (sentinel_code \<circ> snd) Client_errors) = {None}"
  by (simp add: Client_errors_def Client_error_defs)

lemma API_error_codes_distinct: "distinct (map (sentinel_code \<circ> snd) API_errors)"
  unfolding API_error_codes by (simp add: JSErrCode_defs)

lemma ErrorCode_constants_distinct: "distinct (map snd ErrorCode_constants)"
  by (simp add: ErrorCode_constants_def JSErrCode_defs)

text \<open>
  A wrapper is transparent for \<open>errors.As\<close>, at any depth, and a candidate that is a nil
  \<open>*APIError\<close> inside a non-nil interface makes \<open>Is\<close> on a non-nil receiver panic.
\<close>

lemma errors_As_ErrWrap: "errors_As (ErrWrap m e) = errors_As e"
  by (cases e) simp_all

lemma APIError_Is_typed_nil: "APIError_Is (Some e) (ErrAPI None) = Inl NilDereference"
  by simp

lemma APIError_Is_client_only:
  "APIError_Is (Some e) (ErrJS (Some \<lparr>apiErr = None, message = m\<rparr>)) = Inr False"
  by simp

subsection \<open>Matching by \<open>ErrorCode\<close>\<close>

text \<open>
  C1. For every variable of the API error table, the value exposes an embedded
  \<open>APIError\<close> \<open>a\<close>, and every \<open>APIError\<close> \<open>d\<close> built elsewhere with the same \<open>ErrorCode\<close>
  matches it, whatever the \<open>Code\<close> and \<open>Description\<close> of \<open>d\<close>: \<open>d.Is(sentinel)\<close> is true
  (the call \<open>errors.Is(d, sentinel)\<close> makes) and so is \<open>a.Is(d)\<close>. In particular an
  \<open>APIError\<close> with \<open>ErrorCode\<close> 10059 and description "stream not found: xyz" matches
  \<open>ErrStreamNotFound\<close>, for any \<open>Code\<close>.
\<close>

theorem sentinel_matches_same_code:
  "((n, s) \<in> set API_errors \<longrightarrow>
     (\<exists>a. error_APIError s = Some (Inr (Some a)) \<and>
         (\<forall>d. ErrorCode d = ErrorCode a \<longrightarrow>
              APIError_Is (Some d) s = Inr True \<and>
              APIError_Is (Some a) (ErrAPI (Some d)) = Inr True))) \<and>
   APIError_Is (Some \<lparr>Code = c, ErrorCode = 10059, Description = ''stream not found: xyz''\<rparr>)
      ErrStreamNotFound = Inr True"
proof (intro conjI impI)
  assume "(n, s) \<in> set API_errors"
  then obtain a where "s = ErrJS (Some \<lparr>apiErr = Some a, message = ''''\<rparr>)"
    by (rule API_errors_embedded)
  then show "\<exists>a. error_APIError s = Some (Inr (Some a)) \<and>
         (\<forall>d. ErrorCode d = ErrorCode a \<longrightarrow>
              APIError_Is (Some d) s = Inr True \<and>
              APIError_Is (Some a) (ErrAPI (Some d)) = Inr True)"
    by simp
next
  show "APIError_Is (Some \<lparr>Code = c, ErrorCode = 10059, Description = ''stream not found: xyz''\<rparr>)
      ErrStreamNotFound = Inr True"
    by (simp add: ErrStreamNotFound_def api_error_def JSErrCodeStreamNotFound_def)
qed

theorem sentinel_matches_same_code_witness:
  "(''ErrBadRequest'', ErrBadRequest) \<in> set API_errors \<and>
   APIError_Is (Some \<lparr>Code = 500, ErrorCode = 10003, Description = ''malformed: xyz''\<rparr>)
      ErrBadRequest = Inr True \<and>
   APIError_Is (sentinel_APIError ErrBadRequest)
      (ErrAPI (Some \<lparr>Code = 500, ErrorCode = 10003, Description = ''malformed: xyz''\<rparr>)) = Inr True"
proof -
  have m: "(''ErrBadRequest'', ErrBadRequest) \<in> set API_errors"
    by (simp add: API_errors_def)
  have s: "sentinel_APIError ErrBadRequest =
      Some \<lparr>Code = 400, ErrorCode = 10003, Description = ''bad request''\<rparr>"
    by (simp add: ErrBadRequest_def JSErrCodeBadRequest_def)
  have e: "error_APIError ErrBadRequest =
      Some (Inr (Some \<lparr>Code = 400, ErrorCode = 10003, Description = ''bad request''\<rparr>))"
    by (simp add: ErrBadRequest_def JSErrCodeBadRequest_def api_error_def)
  from sentinel_matches_same_code [of "''ErrBadRequest''" ErrBadRequest] m
  obtain a where a: "error_APIError ErrBadRequest = Some (Inr (Some a))"
    and d: "\<And>d. ErrorCode d = ErrorCode a \<Longrightarrow>
              APIError_Is (Some d) ErrBadRequest = Inr True \<and>
              APIError_Is (Some a) (ErrAPI (Some d)) = Inr True"
    by blast
  from a e have "a = \<lparr>Code = 400, ErrorCode = 10003, Description = ''bad request''\<rparr>"
    by simp
  with d [of "\<lparr>Code = 500, ErrorCode = 10003, Description = ''malformed: xyz''\<rparr>"] m s
  show ?thesis by simp
qed

text \<open>
  C2. Let an error of another layer wrap a \<open>jsError\<close> that embeds the \<open>APIError\<close> \<open>b\<close>.
  \<open>errors.As\<close> walks the two \<open>Unwrap\<close> steps and extracts \<open>b\<close>, and for every variable of
  the API error table, with embedded \<open>APIError\<close> \<open>a\<close>, \<open>a.Is\<close> of the wrapped error is
  true exactly when the two \<open>ErrorCode\<close>s are equal; so is \<open>b.Is(sentinel)\<close>, the call that
  \<open>errors.Is\<close> reaches at the end of the same chain.
\<close>

theorem match_two_levels_deep:
  "(n, s) \<in> set API_errors \<Longrightarrow> apiErr j = Some b \<Longrightarrow>
     \<exists>a. error_APIError s = Some (Inr (Some a)) \<and>
         errors_As (ErrWrap w (ErrJS (Some j))) = Inr (True, Some b) \<and>
         APIError_Is (Some a) (ErrWrap w (ErrJS (Some j))) = Inr (ErrorCode a = ErrorCode b) \<and>
         APIError_Is (Some b) s = Inr (ErrorCode b = ErrorCode a)"
  by (erule API_errors_embedded) simp

theorem match_two_levels_deep_witness:
  "(''ErrStreamNotFound'', ErrStreamNotFound) \<in> set API_errors \<and>
   APIError_Is (sentinel_APIError ErrStreamNotFound)
     (ErrWrap ''fetch failed''
        (ErrJS (Some \<lparr>apiErr = Some \<lparr>Code = 404, ErrorCode = 10059, Description = ''gone''\<rparr>,
                       message = ''no response from stream''\<rparr>))) = Inr True \<and>
   APIError_Is (sentinel_APIError ErrStreamNotFound)
     (ErrWrap ''fetch failed''
        (ErrJS (Some \<lparr>apiErr = Some \<lparr>Code = 404, ErrorCode = 10014, Description = ''gone''\<rparr>,
                       message = ''no response from stream''\<rparr>))) = Inr False"
proof -
  have m: "(''ErrStreamNotFound'', ErrStreamNotFound) \<in> set API_errors"
    by (simp add: API_errors_def)
  have s: "sentinel_APIError ErrStreamNotFound =
      Some \<lparr>Code = 404, ErrorCode = 10059, Description = ''stream not found''\<rparr>"
    by (simp add: ErrStreamNotFound_def JSErrCodeStreamNotFound_def)
  have e: "error_APIError ErrStreamNotFound =
      Some (Inr (Some \<lparr>Code = 404, ErrorCode = 10059, Description = ''stream not found''\<rparr>))"
    by (simp add: ErrStreamNotFound_def JSErrCodeStreamNotFound_def api_error_def)
  show ?thesis
    using m
      match_two_levels_deep [OF m,
        of "\<lparr>apiErr = Some \<lparr>Code = 404, ErrorCode = 10059, Description = ''gone''\<rparr>,
              message = ''no response from stream''\<rparr>"
           "\<lparr>Code = 404, ErrorCode = 10059, Description = ''gone''\<rparr>" "''fetch failed''"]
      match_two_levels_deep [OF m,
        of "\<lparr>apiErr = Some \<lparr>Code = 404, ErrorCode = 10014, Description = ''gone''\<rparr>,
              message = ''no response from stream''\<rparr>"
           "\<lparr>Code = 404, ErrorCode = 10014, Description = ''gone''\<rparr>" "''fetch failed''"]
    unfolding s e by simp
qed

text \<open>
  C8. \<open>Is\<close> on a nil \<open>*APIError\<close> receiver returns false for every argument, without a
  panic: the receiver is tested before anything is dereferenced.
\<close>

theorem Is_nil_receiver: "APIError_Is None err = Inr False"
  by simp

subsection \<open>Formatting\<close>

text \<open>
  C3. \<open>Error()\<close> of the \<open>APIError\<close> with \<open>Code\<close> 404, \<open>ErrorCode\<close> 10059 and description
  "stream not found" is exactly "nats: API error 10059: stream not found": the number
  printed is the \<open>ErrorCode\<close>, not the \<open>Code\<close>.
\<close>

theorem APIError_Error_stream_not_found:
  "APIError_Error (Some \<lparr>Code = 404, ErrorCode = 10059, Description = ''stream not found''\<rparr>)
     = Inr ''nats: API error 10059: stream not found''"
  by (simp add: fmt_d_10059)

text \<open>
  C6. \<open>Error()\<close> of a \<open>jsError\<close> is "nats: " followed by its message when \<open>apiErr\<close> is nil;
  when \<open>apiErr\<close> points to an \<open>APIError\<close> with a non-empty description it is that
  \<open>APIError\<close>'s own \<open>Error()\<close>, that is, the text "nats: API error <ErrorCode>:
  <Description>".
\<close>

theorem jsError_Error_cases:
  "(apiErr j = None \<longrightarrow> jsError_Error (Some j) = Inr (''nats: '' @ message j)) \<and>
   (apiErr j = Some a \<and> Description a \<noteq> '''' \<longrightarrow>
      jsError_Error (Some j) = APIError_Error (Some a) \<and>
      jsError_Error (Some j) =
        Inr (''nats: API error '' @ fmt_d (unat (ErrorCode a)) @ '': '' @ Description a))"
  by simp

theorem jsError_Error_cases_witness:
  "jsError_Error (Some \<lparr>apiErr = None, message = ''no messages''\<rparr>) = Inr ''nats: no messages'' \<and>
   jsError_Error
     (Some \<lparr>apiErr = Some \<lparr>Code = 404, ErrorCode = 10059, Description = ''stream not found''\<rparr>,
            message = ''no response from stream''\<rparr>)
     = Inr ''nats: API error 10059: stream not found''"
  using jsError_Error_cases [of "\<lparr>apiErr = None, message = ''no messages''\<rparr>"]
    jsError_Error_cases
      [of "\<lparr>apiErr = Some \<lparr>Code = 404, ErrorCode = 10059, Description = ''stream not found''\<rparr>,
             message = ''no response from stream''\<rparr>"
          "\<lparr>Code = 404, ErrorCode = 10059, Description = ''stream not found''\<rparr>"]
  by (simp add: fmt_d_10059)

text \<open>
  C10. When \<open>apiErr\<close> points to an \<open>APIError\<close> whose description is empty, \<open>Error()\<close> of the
  \<open>jsError\<close> is "nats: " followed by the local message: the result does not depend on
  the \<open>Code\<close> and \<open>ErrorCode\<close> of the embedded \<open>APIError\<close>.
\<close>

theorem jsError_Error_empty_description:
  "apiErr j = Some a \<Longrightarrow> Description a = '''' \<Longrightarrow>
     jsError_Error (Some j) = Inr (''nats: '' @ message j)"
  by simp

theorem jsError_Error_empty_description_witness:
  "jsError_Error
     (Some \<lparr>apiErr = Some \<lparr>Code = 503, ErrorCode = 10076, Description = ''''\<rparr>,
            message = ''no response from stream''\<rparr>)
     = Inr ''nats: no response from stream''"
  using jsError_Error_empty_description
    [of "\<lparr>apiErr = Some \<lparr>Code = 503, ErrorCode = 10076, Description = ''''\<rparr>,
           message = ''no response from stream''\<rparr>"
        "\<lparr>Code = 503, ErrorCode = 10076, Description = ''''\<rparr>"]
  by simp

subsection \<open>Exposing the embedded \<open>APIError\<close>\<close>

text \<open>
  C7. For a \<open>jsError\<close> with nil \<open>apiErr\<close>, \<open>APIError()\<close> returns nil (so not a pointer to
  the zero \<open>APIError\<close>), \<open>Unwrap()\<close> returns the nil interface, and \<open>errors.As\<close> stops
  there without a result. For a \<open>jsError\<close> whose \<open>apiErr\<close> points to \<open>a\<close>, both
  \<open>APIError()\<close> and \<open>Unwrap()\<close> return that pointer.
\<close>

theorem jsError_APIError_Unwrap:
  "(apiErr j = None \<longrightarrow>
      jsError_APIError (Some j) = Inr None \<and>
      jsError_APIError (Some j) \<noteq> Inr (Some \<lparr>Code = 0, ErrorCode = 0, Description = ''''\<rparr>) \<and>
      jsError_Unwrap (Some j) = Inr ErrNil \<and>
      errors_As (ErrJS (Some j)) = Inr (False, None)) \<and>
   (apiErr j = Some a \<longrightarrow>
      jsError_APIError (Some j) = Inr (Some a) \<and>
      jsError_Unwrap (Some j) = Inr (ErrAPI (Some a)))"
  by simp

theorem jsError_APIError_Unwrap_witness:
  "jsError_APIError (Some \<lparr>apiErr = None, message = ''handler cannot be empty''\<rparr>) = Inr None \<and>
   jsError_Unwrap (Some \<lparr>apiErr = None, message = ''handler cannot be empty''\<rparr>) = Inr ErrNil \<and>
   jsError_Unwrap
     (Some \<lparr>apiErr = Some \<lparr>Code = 404, ErrorCode = 10059, Description = ''stream not found''\<rparr>,
            message = ''''\<rparr>)
     = Inr (ErrAPI (Some \<lparr>Code = 404, ErrorCode = 10059, Description = ''stream not found''\<rparr>))"
  using jsError_APIError_Unwrap [of "\<lparr>apiErr = None, message = ''handler cannot be empty''\<rparr>"]
    jsError_APIError_Unwrap
      [of "\<lparr>apiErr = Some \<lparr>Code = 404, ErrorCode = 10059, Description = ''stream not found''\<rparr>,
             message = ''''\<rparr>"
          "\<lparr>Code = 404, ErrorCode = 10059, Description = ''stream not found''\<rparr>"]
  by simp

subsection \<open>The tables of error variables\<close>

text \<open>
  C9. The variables of the API error table have distinct names, each exposes an
  \<open>ErrorCode\<close>, and two different entries never carry the same \<open>ErrorCode\<close>.
\<close>

theorem API_errors_codes_pairwise_distinct:
  "distinct (map fst API_errors) \<and>
   (\<forall>x\<in>set API_errors. \<forall>y\<in>set API_errors.
       x \<noteq> y \<longrightarrow> sentinel_code (snd x) \<noteq> None \<and> sentinel_code (snd x) \<noteq> sentinel_code (snd y))"
proof (intro conjI ballI impI)
  show "distinct (map fst API_errors)"
    by (simp add: API_errors_def)
next
  fix x y assume x: "x \<in> set API_errors" and y: "y \<in> set API_errors" and ne: "x \<noteq> y"
  have "sentinel_code (snd x) \<in> set (map (sentinel_code \<circ> snd) API_errors)"
    using x by auto
  then show "sentinel_code (snd x) \<noteq> None"
    unfolding API_error_codes by auto
  have "inj_on (sentinel_code \<circ> snd) (set API_errors)"
    using API_error_codes_distinct by (simp add: distinct_map)
  then show "sentinel_code (snd x) \<noteq> sentinel_code (snd y)"
    using x y ne by (auto simp: inj_on_def)
qed

theorem API_errors_codes_pairwise_distinct_witness:
  "(''ErrStreamNotFound'', ErrStreamNotFound) \<in> set API_errors \<and>
   (''ErrStreamNameAlreadyInUse'', ErrStreamNameAlreadyInUse) \<in> set API_errors \<and>
   (''ErrStreamNotFound'', ErrStreamNotFound)
     \<noteq> (''ErrStreamNameAlreadyInUse'', ErrStreamNameAlreadyInUse) \<and>
   sentinel_code ErrStreamNotFound \<noteq> sentinel_code ErrStreamNameAlreadyInUse"
proof -
  have a: "(''ErrStreamNotFound'', ErrStreamNotFound) \<in> set API_errors"
    and b: "(''ErrStreamNameAlreadyInUse'', ErrStreamNameAlreadyInUse) \<in> set API_errors"
    by (simp_all add: API_errors_def)
  have ne: "(''ErrStreamNotFound'', ErrStreamNotFound)
      \<noteq> (''ErrStreamNameAlreadyInUse'', ErrStreamNameAlreadyInUse)"
    by simp
  from API_errors_codes_pairwise_distinct a b ne show ?thesis by fastforce
qed

text \<open>
  C4, as stated, fails: the API error table has seven variables, and no error variable
  of the file carries \<open>JSErrCodeConsumerNameExists\<close> or \<open>JSErrCodeConsumerAlreadyExists\<close>.
\<close>

theorem no_sentinel_for_consumer_exists_codes:
  "length API_errors = 7 \<and>
   Some JSErrCodeConsumerNameExists
     \<notin> set (map (sentinel_code \<circ> snd) (API_errors @ Client_errors)) \<and>
   Some JSErrCodeConsumerAlreadyExists
     \<notin> set (map (sentinel_code \<circ> snd) (API_errors @ Client_errors))"
  unfolding map_append set_append API_error_codes Client_error_codes
  by (simp add: JSErrCode_defs API_errors_def)

text \<open>
  C4, amended. The API error table holds exactly seven variables (JetStream not enabled,
  JetStream not enabled for account, stream not found, stream name in use, consumer not
  found, message not found, bad request), each exposing an \<open>APIError\<close> with the
  \<open>ErrorCode\<close> constant of its name, a default \<open>Code\<close> and a default description, and
  their \<open>ErrorCode\<close>s are distinct. Nine distinct \<open>ErrorCode\<close> constants are declared;
  for two of them, consumer name exists and consumer already exists, there is the
  constant only and no error variable.
\<close>

theorem API_errors_table:
  "map (\<lambda>(n, e). (n, sentinel_APIError e)) API_errors =
     [(''ErrJetStreamNotEnabled'',
         Some \<lparr>Code = 503, ErrorCode = JSErrCodeJetStreamNotEnabled,
               Description = ''jetstream not enabled''\<rparr>),
      (''ErrJetStreamNotEnabledForAccount'',
         Some \<lparr>Code = 503, ErrorCode = JSErrCodeJetStreamNotEnabledForAccount,
               Description = ''jetstream not enabled for account''\<rparr>),
      (''ErrStreamNotFound'',
         Some \<lparr>Code = 404, ErrorCode = JSErrCodeStreamNotFound,
               Description = ''stream not found''\<rparr>),
      (''ErrStreamNameAlreadyInUse'',
         Some \<lparr>Code = 400, ErrorCode = JSErrCodeStreamNameInUse,
               Description = ''stream name already in use''\<rparr>),
      (''ErrConsumerNotFound'',
         Some \<lparr>Code = 404, ErrorCode = JSErrCodeConsumerNotFound,
               Description = ''consumer not found''\<rparr>),
      (''ErrMsgNotFound'',
         Some \<lparr>Code = 404, ErrorCode = JSErrCodeMessageNotFound,
               Description = ''message not found''\<rparr>),
      (''ErrBadRequest'',
         Some \<lparr>Code = 400, ErrorCode = JSErrCodeBadRequest, Description = ''bad request''\<rparr>)] \<and>
   distinct (map (sentinel_code \<circ> snd) API_errors) \<and>
   length ErrorCode_constants = 9 \<and>
   distinct (map snd ErrorCode_constants) \<and>
   JSErrCodeConsumerNameExists \<in> set (map snd ErrorCode_constants) \<and>
   JSErrCodeConsumerAlreadyExists \<in> set (map snd ErrorCode_constants) \<and>
   Some JSErrCodeConsumerNameExists
     \<notin> set (map (sentinel_code \<circ> snd) (API_errors @ Client_errors)) \<and>
   Some JSErrCodeConsumerAlreadyExists
     \<notin> set (map (sentinel_code \<circ> snd) (API_errors @ Client_errors))"
proof (intro conjI)
  show "distinct (map (sentinel_code \<circ> snd) API_errors)"
    by (rule API_error_codes_distinct)
  show "distinct (map snd ErrorCode_constants)"
    by (rule ErrorCode_constants_distinct)
  show "Some JSErrCodeConsumerNameExists
      \<notin> set (map (sentinel_code \<circ> snd) (API_errors @ Client_errors))"
    unfolding map_append set_append API_error_codes Client_error_codes
    by (simp add: JSErrCode_defs)
  show "Some JSErrCodeConsumerAlreadyExists
      \<notin> set (map (sentinel_code \<circ> snd) (API_errors @ Client_errors))"
    unfolding map_append set_append API_error_codes Client_error_codes
    by (simp add: JSErrCode_defs)
qed (simp_all add: API_errors_def API_error_defs ErrorCode_constants_def)

text \<open>
  C5, as stated, fails at \<open>ErrEndOfData\<close>: it is made by \<open>errors.New\<close>, so it is not a
  \<open>jsError\<close> and has no \<open>APIError()\<close> method.
\<close>

theorem ErrEndOfData_not_jsError:
  "(''ErrEndOfData'', ErrEndOfData) \<in> set Client_errors \<and>
   \<not> is_jsError ErrEndOfData \<and> \<not> implements_JetStreamError ErrEndOfData"
  by (simp add: Client_errors_def ErrEndOfData_def implements_JetStreamError_def)

text \<open>
  C5, amended. Every variable of the client error table other than \<open>ErrEndOfData\<close> is a
  \<open>jsError\<close> with a message and a nil \<open>apiErr\<close>; it implements \<open>JetStreamError\<close>, its
  \<open>Error()\<close> is "nats: " followed by the message and its \<open>APIError()\<close> is nil.
  \<open>ErrEndOfData\<close> is a plain error whose \<open>Error()\<close> is "nats: end of data reached"; it
  has no \<open>APIError()\<close>.
\<close>

theorem Client_errors_are_jsErrors_except_end_of_data:
  "((n, e) \<in> set Client_errors \<and> n \<noteq> ''ErrEndOfData'' \<longrightarrow>
      (\<exists>m. e = ErrJS (Some \<lparr>apiErr = None, message = m\<rparr>) \<and>
           implements_JetStreamError e \<and>
           error_Error e = Inr (''nats: '' @ m) \<and>
           error_APIError e = Some (Inr None))) \<and>
   error_Error ErrEndOfData = Inr ''nats: end of data reached'' \<and>
   error_APIError ErrEndOfData = None"
proof (intro conjI impI)
  assume "(n, e) \<in> set Client_errors \<and> n \<noteq> ''ErrEndOfData''"
  with Client_errors_shape obtain m where "e = ErrJS (Some \<lparr>apiErr = None, message = m\<rparr>)"
    by (auto simp: list_all_iff)
  then show "\<exists>m. e = ErrJS (Some \<lparr>apiErr = None, message = m\<rparr>) \<and>
           implements_JetStreamError e \<and>
           error_Error e = Inr (''nats: '' @ m) \<and>
           error_APIError e = Some (Inr None)"
    by (simp add: implements_JetStreamError_def)
qed (simp_all add: ErrEndOfData_def)

theorem Client_errors_are_jsErrors_except_end_of_data_witness:
  "(''ErrHandlerRequired'', ErrHandlerRequired) \<in> set Client_errors \<and>
   ''ErrHandlerRequired'' \<noteq> ''ErrEndOfData'' \<and>
   error_Error ErrHandlerRequired = Inr ''nats: handler cannot be empty'' \<and>
   error_APIError ErrHandlerRequired = Some (Inr None)"
proof -
  have m: "(''ErrHandlerRequired'', ErrHandlerRequired) \<in> set Client_errors"
    by (simp add: Client_errors_def)
  have ne: "''ErrHandlerRequired'' \<noteq> ''ErrEndOfData''" by simp
  have v: "ErrHandlerRequired = ErrJS (Some \<lparr>apiErr = None, message = ''handler cannot be empty''\<rparr>)"
    by (simp add: ErrHandlerRequired_def client_error_def)
  from Client_errors_are_jsErrors_except_end_of_data [of "''ErrHandlerRequired''" ErrHandlerRequired]
    m ne
  obtain msg where q: "ErrHandlerRequired = ErrJS (Some \<lparr>apiErr = None, message = msg\<rparr>)"
    and r: "error_Error ErrHandlerRequired = Inr (''nats: '' @ msg)"
       "error_APIError ErrHandlerRequired = Some (Inr None)"
    by blast
  from q [unfolded v] have "msg = ''handler cannot be empty''" by simp
  with r m ne show ?thesis by simp
qed

end
